theory Spec2Isabelle
  imports Main
begin

section \<open>JavaScript values used by the relayer backend\<close>

text \<open>
  The backend (\<^verbatim>\<open>src/backend/index.js\<close>) is an ES module. Values that cross
  the wire are JSON; a number is kept as an integer (the only numbers the code
  inspects are tested for truthiness or printed).  An object is an association
  list in document order; \<^verbatim>\<open>JSON.parse\<close> keeps the last of duplicate keys.
\<close>

datatype json =
    JNull
  | JBool bool
  | JNum int
  | JStr string
  | JArr "json list"
  | JObj "(string \<times> json) list"

text \<open>Thrown values.  Every one of them is an object, hence truthy.\<close>

datatype js_error =
    Error string              \<comment> \<open>\<^verbatim>\<open>new Error(message)\<close>, also the errors ethers throws\<close>
  | ReferenceError string     \<comment> \<open>the identifier that is not defined\<close>
  | TypeError string          \<comment> \<open>for instance \<^verbatim>\<open>fetch failed\<close>, or a property read of \<^verbatim>\<open>null\<close>\<close>
  | OtherError string string  \<comment> \<open>any other thrown object: its name and its message\<close>

fun js_truthy :: "json \<Rightarrow> bool" where
  "js_truthy JNull = False"
| "js_truthy (JBool b) = b"
| "js_truthy (JNum n) = (n \<noteq> 0)"
| "js_truthy (JStr s) = (s \<noteq> [])"
| "js_truthy (JArr xs) = True"
| "js_truthy (JObj kvs) = True"

text \<open>
  Property read \<^verbatim>\<open>v.k\<close> for the keys the code reads (\<^verbatim>\<open>result\<close>,
  \<^verbatim>\<open>error\<close>, \<^verbatim>\<open>message\<close>): \<open>None\<close> is \<^verbatim>\<open>undefined\<close>.  Only an
  object can own such a key.  Reading a property of \<^verbatim>\<open>null\<close> throws; the callers
  below guard it as the source does.
\<close>

fun get_prop :: "json \<Rightarrow> string \<Rightarrow> json option" where
  "get_prop (JObj kvs) k = map_of (rev kvs) k"
| "get_prop v k = None"

text \<open>Optional chaining \<^verbatim>\<open>v?.k\<close> on a value that may be \<^verbatim>\<open>undefined\<close>.\<close>

fun opt_chain :: "json option \<Rightarrow> string \<Rightarrow> json option" where
  "opt_chain None k = None"
| "opt_chain (Some JNull) k = None"
| "opt_chain (Some v) k = get_prop v k"

text \<open>Decimal digits, for printing a status code; used below only with \<open>n < 10\<close>.\<close>

definition digit_char :: "nat \<Rightarrow> char" where
  "digit_char n = ''0123456789'' ! n"

function show_nat :: "nat \<Rightarrow> string" where
  "show_nat n = (if n < 10 then [digit_char n] else show_nat (n div 10) @ [digit_char (n mod 10)])"
  by pat_completeness auto
termination
  by (relation "measure id") auto

declare show_nat.simps [simp del]

definition show_int :: "int \<Rightarrow> string" where
  "show_int i = (if i < 0 then CHR ''-'' # show_nat (nat (- i)) else show_nat (nat i))"

fun join_comma :: "string list \<Rightarrow> string" where
  "join_comma [] = []"
| "join_comma [s] = s"
| "join_comma (s # t # ss) = s @ '','' @ join_comma (t # ss)"

text \<open>\<^verbatim>\<open>String(v)\<close>, which is how \<^verbatim>\<open>new Error(v)\<close> turns its argument into the message.\<close>

fun js_String :: "json \<Rightarrow> string" where
  "js_String JNull = ''null''"
| "js_String (JBool b) = (if b then ''true'' else ''false'')"
| "js_String (JNum n) = show_int n"
| "js_String (JStr s) = s"
| "js_String (JArr xs) = join_comma (map (\<lambda>x. if x = JNull then [] else js_String x) xs)"
| "js_String (JObj kvs) = ''[object Object]''"

section \<open>Safe RPC helpers\<close>

text \<open>
  \<^verbatim>\<open>READS = [process.env.READ_RPC_1, process.env.READ_RPC_2].filter(Boolean)\<close>.
  An environment variable is a string or unset.
\<close>

definition env_truthy :: "string option \<Rightarrow> bool" where
  "env_truthy v = (case v of None \<Rightarrow> False | Some s \<Rightarrow> s \<noteq> [])"

definition READS :: "string option \<Rightarrow> string option \<Rightarrow> string list" where
  "READS read_rpc_1 read_rpc_2 = map the (filter env_truthy [read_rpc_1, read_rpc_2])"

text \<open>
  One outbound HTTP POST is identified by its URL, method and parameters (the
  \<^verbatim>\<open>id\<close> is a timestamp and plays no part).  The outside world answers a
  request knowing every request made before it; \<^verbatim>\<open>fetch\<close> either rejects or
  yields a response with a status and a body, whose \<^verbatim>\<open>r.json()\<close> either
  parses (\<open>Some\<close>) or rejects (\<open>None\<close>).
\<close>

type_synonym request = "string \<times> string \<times> json list"

datatype fetch_result = Rejected js_error | Response nat "json option"

type_synonym network = "request list \<Rightarrow> request \<Rightarrow> fetch_result"

text \<open>\<^verbatim>\<open>await r.json().catch(() => ({}))\<close>\<close>

definition parsed_body :: "json option \<Rightarrow> json" where
  "parsed_body parsed = (case parsed of None \<Rightarrow> JObj [] | Some v \<Rightarrow> v)"

text \<open>The part of \<^verbatim>\<open>rpcFetch\<close> after the response has arrived (lines 36-38).\<close>

definition rpc_result :: "nat \<Rightarrow> json option \<Rightarrow> js_error + json" where
  "rpc_result status parsed =
     (let j = parsed_body parsed in
      if js_truthy j \<and> get_prop j ''result'' \<noteq> None then Inr (the (get_prop j ''result''))
      else
        (case opt_chain (opt_chain (Some j) ''error'') ''message'' of
           Some m \<Rightarrow> if js_truthy m then Inl (Error (js_String m))
                     else Inl (Error (''rpc error '' @ show_nat status))
         | None \<Rightarrow> Inl (Error (''rpc error '' @ show_nat status))))"

text \<open>\<^verbatim>\<open>rpcFetch(url, method, params)\<close>: the result or the thrown error, and the requests made so far.\<close>

definition rpcFetch ::
  "network \<Rightarrow> request list \<Rightarrow> string \<Rightarrow> string \<Rightarrow> json list \<Rightarrow> (js_error + json) \<times> request list" where
  "rpcFetch net log url method params =
     (case net log (url, method, params) of
        Rejected e \<Rightarrow> (Inl e, log @ [(url, method, params)])
      | Response status parsed \<Rightarrow> (rpc_result status parsed, log @ [(url, method, params)]))"

text \<open>
  \<^verbatim>\<open>rpc(method, params)\<close>: the loop over \<^verbatim>\<open>READS\<close>, with \<^verbatim>\<open>lastErr\<close>
  (\<open>None\<close> is \<^verbatim>\<open>undefined\<close>) carried along.
\<close>

fun rpc_loop ::
  "network \<Rightarrow> string \<Rightarrow> json list \<Rightarrow> string list \<Rightarrow> js_error option \<Rightarrow> request list
     \<Rightarrow> (js_error + json) \<times> request list" where
  "rpc_loop net method params [] lastErr log =
     (case lastErr of Some e \<Rightarrow> (Inl e, log) | None \<Rightarrow> (Inl (Error ''all RPCs failed''), log))"
| "rpc_loop net method params (url # urls) lastErr log =
     (case rpcFetch net log url method params of
        (Inr r, log') \<Rightarrow> (Inr r, log')
      | (Inl e, log') \<Rightarrow> rpc_loop net method params urls (Some e) log')"

definition rpc ::
  "network \<Rightarrow> string list \<Rightarrow> request list \<Rightarrow> string \<Rightarrow> json list \<Rightarrow> (js_error + json) \<times> request list" where
  "rpc net reads log method params = rpc_loop net method params reads None log"

text \<open>The requests that attempting the endpoints \<open>urls\<close> in order makes.\<close>

definition attempts :: "string \<Rightarrow> json list \<Rightarrow> string list \<Rightarrow> request list" where
  "attempts method params urls = map (\<lambda>u. (u, method, params)) urls"

text \<open>
  What a reader of the response would call the server-supplied error message: the
  \<^verbatim>\<open>message\<close> member of the \<^verbatim>\<open>error\<close> member of the body, as text, when
  there is one and it is not empty (not falsy).
\<close>

definition server_message :: "json \<Rightarrow> string option" where
  "server_message j =
     (case j of
        JObj kvs \<Rightarrow>
          (case map_of (rev kvs) ''error'' of
             Some (JObj evs) \<Rightarrow>
               (case map_of (rev evs) ''message'' of
                  Some m \<Rightarrow> if js_truthy m then Some (js_String m) else None
                | None \<Rightarrow> None)
           | _ \<Rightarrow> None)
      | _ \<Rightarrow> None)"

section \<open>Module scope and HTTP responses\<close>

text \<open>
  The identifiers that \<^verbatim>\<open>index.js\<close> binds at module level: its imports
  (lines 1-18, the ethers import being the named list
  \<^verbatim>\<open>JsonRpcProvider, Wallet, formatEther, parseEther, Contract, parseUnits,
  Interface, ZeroAddress, toBeHex, getBytes\<close>) and its top-level declarations.
\<close>

definition module_bindings :: "string list" where
  "module_bindings =
     [''express'', ''cors'',
      ''JsonRpcProvider'', ''Wallet'', ''formatEther'', ''parseEther'', ''Contract'',
      ''parseUnits'', ''Interface'', ''ZeroAddress'', ''toBeHex'', ''getBytes'',
      ''fs'', ''path'', ''fileURLToPath'',
      ''READS'', ''rpcFetch'', ''rpc'', ''toHex'', ''__filename'', ''__dirname'', ''app'',
      ''READ_RPC'', ''provider'', ''relayer'', ''loadArtifact'',
      ''ENTRYPOINT_ABI'', ''FACTORY_ABI'', ''MINIMAL_ACCOUNT_ABI'',
      ''accountFactoryContract'', ''getSenderAndInit'', ''REWARD_TOKEN'', ''PORT'']"

text \<open>The globals of the runtime that the file uses.\<close>

definition runtime_globals :: "string list" where
  "runtime_globals =
     [''process'', ''fetch'', ''JSON'', ''String'', ''Number'', ''BigInt'', ''Date'', ''Error'',
      ''Promise'', ''AbortController'', ''setTimeout'', ''clearTimeout'', ''console'']"

text \<open>
  Evaluating a free identifier of the module: an ES module is strict code, so a
  name that is bound nowhere throws a \<^verbatim>\<open>ReferenceError\<close>.
\<close>

definition resolve_identifier :: "string \<Rightarrow> js_error + unit" where
  "resolve_identifier name =
     (if name \<in> set module_bindings \<or> name \<in> set runtime_globals then Inr ()
      else Inl (ReferenceError name))"

text \<open>\<^verbatim>\<open>String(e)\<close> for a thrown error.\<close>

fun error_String :: "js_error \<Rightarrow> string" where
  "error_String (Error m) = ''Error: '' @ m"
| "error_String (ReferenceError x) = ''ReferenceError: '' @ x @ '' is not defined''"
| "error_String (TypeError m) = ''TypeError: '' @ m"
| "error_String (OtherError n m) = n @ '': '' @ m"

text \<open>What a handler sends: \<^verbatim>\<open>res.status(s).json(body)\<close>; \<^verbatim>\<open>res.json(body)\<close> is status 200.\<close>

record response =
  status :: nat
  body :: json

definition respond :: "nat \<Rightarrow> json \<Rightarrow> response" where
  "respond s b = \<lparr>status = s, body = b\<rparr>"

text \<open>The \<^verbatim>\<open>catch (e)\<close> of every handler.\<close>

definition fail_500 :: "js_error \<Rightarrow> response" where
  "fail_500 e = respond 500 (JObj [(''error'', JStr (error_String e))])"

text \<open>\<^verbatim>\<open>String(req.query.k || "")\<close> for a query parameter that is a string or absent.\<close>

definition query_String :: "string option \<Rightarrow> string" where
  "query_String q = (case q of None \<Rightarrow> [] | Some s \<Rightarrow> s)"

text \<open>
  An ethers \<^verbatim>\<open>Interface\<close>.  The library is not part of the repository: its
  encoder and decoder are taken as given functions that return or throw.
  \<^verbatim>\<open>getFunction\<close> is reduced to whether it finds the fragment.
\<close>

record iface =
  encodeFunctionData :: "string \<Rightarrow> json list \<Rightarrow> js_error + string"
  decodeFunctionResult :: "string \<Rightarrow> json \<Rightarrow> js_error + json list"
  getFunction :: "string \<Rightarrow> bool"

text \<open>The first element of a decoded result; \<^verbatim>\<open>undefined\<close> is rendered as \<^verbatim>\<open>null\<close>.\<close>

definition first_of :: "json list \<Rightarrow> json" where
  "first_of xs = (case xs of [] \<Rightarrow> JNull | x # _ \<Rightarrow> x)"

section \<open>GET /api/aa/address\<close>

text \<open>\<^verbatim>\<open>safeCall(to, data)\<close> (lines 139-145): the read through \<^verbatim>\<open>rpc\<close>, \<^verbatim>\<open>null\<close> on any error.\<close>

definition safeCall ::
  "network \<Rightarrow> string list \<Rightarrow> request list \<Rightarrow> string \<Rightarrow> string \<Rightarrow> json \<times> request list" where
  "safeCall net reads log to data =
     (case rpc net reads log ''eth_call''
             [JObj [(''to'', JStr to), (''data'', JStr data)], JStr ''latest''] of
        (Inr r, log') \<Rightarrow> (r, log')
      | (Inl e, log') \<Rightarrow> (JNull, log'))"

text \<open>Lines 147-158: try \<^verbatim>\<open>getAddress(string)\<close>.\<close>

definition address_step1 ::
  "network \<Rightarrow> string list \<Rightarrow> request list \<Rightarrow> iface \<Rightarrow> string \<Rightarrow> string
     \<Rightarrow> (js_error + json) \<times> request list" where
  "address_step1 net reads log facIf factoryAddr userId =
     (case encodeFunctionData facIf ''getAddress'' [JStr userId] of
        Inl e \<Rightarrow> (Inl e, log)
      | Inr data \<Rightarrow>
          (case safeCall net reads log factoryAddr data of
             (out, log') \<Rightarrow>
               if js_truthy out
               then (case decodeFunctionResult facIf ''getAddress'' out of
                       Inr xs \<Rightarrow> (Inr (first_of xs), log')
                     | Inl e \<Rightarrow> (Inr JNull, log'))
               else (Inr JNull, log')))"

text \<open>
  Lines 160-172: if that failed, try \<^verbatim>\<open>getAddress(bytes32)\<close> with
  \<^verbatim>\<open>keccak256(toUtf8Bytes(userId))\<close>.  The call evaluates its callee first;
  \<open>keccak_utf8\<close> stands for what the two functions would compute, \<open>altIf\<close> for
  the interface built on the fly.
\<close>

definition address_step2 ::
  "network \<Rightarrow> string list \<Rightarrow> request list \<Rightarrow> (string \<Rightarrow> string) \<Rightarrow> iface \<Rightarrow> string \<Rightarrow> string
     \<Rightarrow> json \<Rightarrow> (js_error + json) \<times> request list" where
  "address_step2 net reads log keccak_utf8 altIf factoryAddr userId smartAccount =
     (if js_truthy smartAccount then (Inr smartAccount, log)
      else
        (case resolve_identifier ''keccak256'' of
           Inl e \<Rightarrow> (Inl e, log)
         | Inr _ \<Rightarrow>
        (case resolve_identifier ''toUtf8Bytes'' of
           Inl e \<Rightarrow> (Inl e, log)
         | Inr _ \<Rightarrow>
        (case encodeFunctionData altIf ''getAddress'' [JStr (keccak_utf8 userId)] of
           Inl e \<Rightarrow> (Inl e, log)
         | Inr data \<Rightarrow>
             (case safeCall net reads log factoryAddr data of
                (out, log') \<Rightarrow>
                  if js_truthy out
                  then (case decodeFunctionResult altIf ''getAddress'' out of
                          Inr xs \<Rightarrow> (Inr (first_of xs), log')
                        | Inl e \<Rightarrow> (Inr smartAccount, log'))
                  else (Inr smartAccount, log'))))))"

text \<open>Lines 174-180: the implementation, \<^verbatim>\<open>null\<close> when anything in the block throws.\<close>

definition address_step3 ::
  "network \<Rightarrow> string list \<Rightarrow> request list \<Rightarrow> iface \<Rightarrow> string \<Rightarrow> json \<times> request list" where
  "address_step3 net reads log facIf factoryAddr =
     (case encodeFunctionData facIf ''implementation'' [] of
        Inl e \<Rightarrow> (JNull, log)
      | Inr implData \<Rightarrow>
          (case rpc net reads log ''eth_call''
                  [JObj [(''to'', JStr factoryAddr), (''data'', JStr implData)], JStr ''latest''] of
             (Inl e, log') \<Rightarrow> (JNull, log')
           | (Inr implOut, log') \<Rightarrow>
               (case decodeFunctionResult facIf ''implementation'' implOut of
                  Inl e \<Rightarrow> (JNull, log')
                | Inr xs \<Rightarrow> (first_of xs, log'))))"

text \<open>
  The handler (lines 126-198).  \<open>user\<close> is \<^verbatim>\<open>req.query.user\<close>, \<open>aa_factory\<close>
  is \<^verbatim>\<open>process.env.AA_FACTORY\<close>, \<open>load_facIf\<close> is the outcome of loading the
  artifact and building its \<^verbatim>\<open>Interface\<close>.
\<close>

definition aa_address ::
  "network \<Rightarrow> string list \<Rightarrow> request list \<Rightarrow> (string \<Rightarrow> string) \<Rightarrow> iface \<Rightarrow> (js_error + iface)
     \<Rightarrow> string option \<Rightarrow> string option \<Rightarrow> response \<times> request list" where
  "aa_address net reads log keccak_utf8 altIf load_facIf aa_factory user =
     (let userId = query_String user in
      if userId = [] then (respond 400 (JObj [(''error'', JStr ''missing ?user=<string>'')]), log)
      else if \<not> env_truthy aa_factory
      then (respond 400 (JObj [(''error'', JStr ''AA_FACTORY not set'')]), log)
      else
        let factoryAddr = the aa_factory in
        (case load_facIf of
           Inl e \<Rightarrow> (fail_500 e, log)
         | Inr facIf \<Rightarrow>
        (case address_step1 net reads log facIf factoryAddr userId of
           (Inl e, log1) \<Rightarrow> (fail_500 e, log1)
         | (Inr smartAccount1, log1) \<Rightarrow>
        (case address_step2 net reads log1 keccak_utf8 altIf factoryAddr userId smartAccount1 of
           (Inl e, log2) \<Rightarrow> (fail_500 e, log2)
         | (Inr smartAccount, log2) \<Rightarrow>
        (case address_step3 net reads log2 facIf factoryAddr of
           (implementation, log3) \<Rightarrow>
             if \<not> js_truthy smartAccount
             then (respond 500
                     (JObj [(''error'', JStr ''Factory reverted for both signatures (string/bytes32). Check ABI or AA_FACTORY.''),
                            (''factory'', JStr factoryAddr)]), log3)
             else (respond 200
                     (JObj [(''userId'', JStr userId), (''factory'', JStr factoryAddr),
                            (''implementation'', implementation),
                            (''smartAccount'', smartAccount)]), log3))))))"

section \<open>The gasless-mint pipeline\<close>

text \<open>
  The chain is reached through the ethers \<^verbatim>\<open>provider\<close>; each read returns or
  throws.
\<close>

record provider =
  getCode :: "string \<Rightarrow> js_error + string"
  call :: "string \<Rightarrow> string \<Rightarrow> js_error + json"
  resolveName :: "string \<Rightarrow> js_error + string"

text \<open>
  The \<^verbatim>\<open>Contract\<close> object that \<^verbatim>\<open>getSenderAndInit\<close> works with: what
  \<^verbatim>\<open>factory.getAddress(userId)\<close> yields, and \<^verbatim>\<open>factory.interface\<close>.
\<close>

record factory_contract =
  getAddress :: "string \<Rightarrow> js_error + string"
  interface :: iface

text \<open>The test \<^verbatim>\<open>isHexString(value)\<close> of ethers: \<^verbatim>\<open>^0x[0-9A-Fa-f]*$\<close>.\<close>

definition isHexString :: "string \<Rightarrow> bool" where
  "isHexString s =
     (take 2 s = ''0x'' \<and> list_all (\<lambda>c. c \<in> set ''0123456789abcdefABCDEF'') (drop 2 s))"

text \<open>
  \<^verbatim>\<open>accountFactoryContract(address)\<close> (lines 398-402) builds
  \<^verbatim>\<open>new Contract(address, abi, provider)\<close>.  An ethers v6 \<^verbatim>\<open>Contract\<close> has a
  method \<^verbatim>\<open>getAddress()\<close> of its own, and a property of the object itself is
  found before a function of the ABI with the same name.  So
  \<^verbatim>\<open>factory.getAddress(userId)\<close> at line 409 ignores its argument and yields the
  address the contract object stands for: the target itself when that is a hex
  string, and what the provider resolves the name to otherwise.  The ABI function
  is reached by its signature, \<^verbatim>\<open>factory['getAddress(string)'](userId)\<close>, as
  lines 292 and 355 do (an earlier version of the backend notes: call by signature
  to avoid the collision).
\<close>

definition factory_contract_of :: "provider \<Rightarrow> iface \<Rightarrow> string \<Rightarrow> factory_contract" where
  "factory_contract_of prov abi_iface address =
     \<lparr>getAddress = (\<lambda>userId. if isHexString address then Inr address
                              else resolveName prov address),
      interface = abi_iface\<rparr>"

text \<open>
  What the ethers namespace would provide if the name \<^verbatim>\<open>ethers\<close> resolved:
  \<^verbatim>\<open>ethers.id\<close>, and the interfaces that \<^verbatim>\<open>new ethers.Interface(...)\<close>
  builds from the inline bytes32 ABI (lines 425-428), from the token ABI (line 469)
  and from the account ABI (line 473); and the imported \<^verbatim>\<open>parseUnits\<close>.
\<close>

record ethers_lib =
  ethers_id :: "string \<Rightarrow> string"
  bytes32_iface :: iface
  token_iface :: "json \<Rightarrow> js_error + iface"
  account_iface :: iface
  parseUnits :: "string \<Rightarrow> nat \<Rightarrow> js_error + int"

text \<open>\<^verbatim>\<open>code && code !== '0x'\<close>, as a truth value.\<close>

definition has_code :: "string \<Rightarrow> bool" where
  "has_code code = (code \<noteq> [] \<and> code \<noteq> ''0x'')"

record init_result =
  sender :: string
  deployed :: bool
  factoryData :: string
  usedBytes32 :: bool

text \<open>The \<^verbatim>\<open>try\<close> block of \<^verbatim>\<open>getSenderAndInit\<close> (lines 408-416).\<close>

definition getSenderAndInit_string ::
  "provider \<Rightarrow> factory_contract \<Rightarrow> string \<Rightarrow> js_error + init_result" where
  "getSenderAndInit_string prov factory userId =
     (case getAddress factory userId of
        Inl e \<Rightarrow> Inl e
      | Inr sender' \<Rightarrow>
     (case getCode prov sender' of
        Inl e \<Rightarrow> Inl e
      | Inr code \<Rightarrow>
          if \<not> has_code code
          then (case encodeFunctionData (interface factory) ''createAccount'' [JStr userId] of
                  Inl e \<Rightarrow> Inl e
                | Inr fd \<Rightarrow>
                    Inr \<lparr>sender = sender', deployed = False, factoryData = fd, usedBytes32 = False\<rparr>)
          else Inr \<lparr>sender = sender', deployed = True, factoryData = ''0x'', usedBytes32 = False\<rparr>))"

text \<open>
  The \<^verbatim>\<open>catch\<close> block (lines 417-443).  Its first statement evaluates
  \<^verbatim>\<open>ethers.id(userId)\<close>.
\<close>

definition getSenderAndInit_bytes32 ::
  "ethers_lib \<Rightarrow> provider \<Rightarrow> factory_contract \<Rightarrow> string \<Rightarrow> string \<Rightarrow> js_error + init_result" where
  "getSenderAndInit_bytes32 lib prov factory factoryAddr userId =
     (case resolve_identifier ''ethers'' of
        Inl e \<Rightarrow> Inl e
      | Inr _ \<Rightarrow>
          let salt = ethers_id lib userId;
              iface' = (if \<not> getFunction (interface factory) ''getAddress(bytes32)''
                        then bytes32_iface lib else interface factory)
          in
          (case encodeFunctionData iface' ''getAddress(bytes32)'' [JStr salt] of
             Inl e \<Rightarrow> Inl e
           | Inr data \<Rightarrow>
          (case call prov factoryAddr data of
             Inl e \<Rightarrow> Inl e
           | Inr result \<Rightarrow>
          (case decodeFunctionResult iface' ''getAddress(bytes32)'' result of
             Inl e \<Rightarrow> Inl e
           | Inr xs \<Rightarrow>
          (case first_of xs of
             JStr sender' \<Rightarrow>
               (case getCode prov sender' of
                  Inl e \<Rightarrow> Inl e
                | Inr code \<Rightarrow>
                    if \<not> has_code code
                    then (case encodeFunctionData iface' ''createAccount(bytes32)'' [JStr salt] of
                            Inl e \<Rightarrow> Inl e
                          | Inr fd \<Rightarrow>
                              Inr \<lparr>sender = sender', deployed = False, factoryData = fd,
                                   usedBytes32 = True\<rparr>)
                    else Inr \<lparr>sender = sender', deployed = True, factoryData = ''0x'',
                              usedBytes32 = True\<rparr>)
           | _ \<Rightarrow> Inl (TypeError ''invalid address''))))))"

text \<open>
  \<^verbatim>\<open>getSenderAndInit(factoryAddr, userId)\<close> (lines 404-444).  \<open>load_factory\<close>
  is the outcome of \<^verbatim>\<open>accountFactoryContract(factoryAddr)\<close>, which runs outside
  the \<^verbatim>\<open>try\<close>.
\<close>

definition getSenderAndInit ::
  "ethers_lib \<Rightarrow> provider \<Rightarrow> (js_error + factory_contract) \<Rightarrow> string \<Rightarrow> string
     \<Rightarrow> js_error + init_result" where
  "getSenderAndInit lib prov load_factory factoryAddr userId =
     (case load_factory of
        Inl e \<Rightarrow> Inl e
      | Inr factory \<Rightarrow>
          (case getSenderAndInit_string prov factory userId of
             Inr r \<Rightarrow> Inr r
           | Inl _ \<Rightarrow> getSenderAndInit_bytes32 lib prov factory factoryAddr userId))"

text \<open>
  The object literal of lines 476-488 and the conditional of lines 490-493.  A
  JavaScript object is the list of its own properties in insertion order, so an
  absent property is an absent key.
\<close>

definition userOp_literal :: "string \<Rightarrow> string \<Rightarrow> string \<Rightarrow> (string \<times> json) list" where
  "userOp_literal sender' callData paymasterAddr =
     [(''sender'', JStr sender'),
      (''nonce'', JStr ''0x0''),
      (''callData'', JStr callData),
      (''callGasLimit'', JStr ''0x5208''),
      (''verificationGasLimit'', JStr ''0x989680''),
      (''preVerificationGas'', JStr ''0x186a0''),
      (''maxFeePerGas'', JStr ''0x3b9aca00''),
      (''maxPriorityFeePerGas'', JStr ''0x3b9aca00''),
      (''paymaster'', JStr paymasterAddr),
      (''paymasterData'', JStr ''0x''),
      (''signature'', JStr ''0x'')]"

definition build_userOp :: "init_result \<Rightarrow> string \<Rightarrow> string \<Rightarrow> string \<Rightarrow> json" where
  "build_userOp r callData paymasterAddr factoryAddr =
     (if \<not> deployed r
      then JObj (userOp_literal (sender r) callData paymasterAddr @
                 [(''factory'', JStr factoryAddr), (''factoryData'', JStr (factoryData r))])
      else JObj (userOp_literal (sender r) callData paymasterAddr))"

text \<open>
  Lines 495-517: the POST to the bundler and the answer to the client.  Here
  \<^verbatim>\<open>resp.json()\<close> is not guarded, and \<^verbatim>\<open>json.error\<close> on \<^verbatim>\<open>null\<close>
  throws.  A property whose value is \<^verbatim>\<open>undefined\<close> is left out of the reply.
\<close>

definition submit_userOp ::
  "network \<Rightarrow> request list \<Rightarrow> string \<Rightarrow> string \<Rightarrow> json \<Rightarrow> string \<Rightarrow> string \<Rightarrow> string
     \<Rightarrow> response \<times> request list" where
  "submit_userOp net log bundlerUrl entryPoint userOp sender' receiver amountStr =
     (let req = (bundlerUrl, ''eth_sendUserOperation'', [userOp, JStr entryPoint]) in
      case net log req of
        Rejected e \<Rightarrow> (fail_500 e, log @ [req])
      | Response sc parsed \<Rightarrow>
          (case parsed of
             None \<Rightarrow> (fail_500 (OtherError ''SyntaxError'' ''Unexpected token''), log @ [req])
           | Some JNull \<Rightarrow> (fail_500 (TypeError ''Cannot read properties of null''), log @ [req])
           | Some json \<Rightarrow>
               (case get_prop json ''error'' of
                  Some err \<Rightarrow>
                    if js_truthy err
                    then (respond 400 (JObj [(''error'', JStr ''Bundler rejected''),
                                             (''details'', err),
                                             (''sentUserOp'', userOp)]), log @ [req])
                    else (respond 200 (JObj ([(''ok'', JBool True)] @
                            (case get_prop json ''result'' of
                               None \<Rightarrow> [] | Some h \<Rightarrow> [(''userOpHash'', h)]) @
                            [(''sender'', JStr sender'), (''receiver'', JStr receiver),
                             (''amount'', JStr amountStr)])), log @ [req])
                | None \<Rightarrow>
                    (respond 200 (JObj ([(''ok'', JBool True)] @
                            (case get_prop json ''result'' of
                               None \<Rightarrow> [] | Some h \<Rightarrow> [(''userOpHash'', h)]) @
                            [(''sender'', JStr sender'), (''receiver'', JStr receiver),
                             (''amount'', JStr amountStr)])), log @ [req]))))"

text \<open>The environment variables the handler reads (lines 456-460).\<close>

record env =
  AA_FACTORY :: "string option"
  REWARD_TOKEN :: "string option"
  PAYMASTER :: "string option"
  BUNDLER_URL :: "string option"
  ENTRYPOINT :: "string option"

text \<open>Lines 467-474: the two nested encodings, each behind \<^verbatim>\<open>new ethers.Interface\<close>.\<close>

definition encode_mint_call ::
  "ethers_lib \<Rightarrow> json \<Rightarrow> string \<Rightarrow> string \<Rightarrow> string \<Rightarrow> js_error + string" where
  "encode_mint_call lib tokenAbi tokenAddr receiver amountStr =
     (case resolve_identifier ''ethers'' of
        Inl e \<Rightarrow> Inl e
      | Inr _ \<Rightarrow>
     (case token_iface lib tokenAbi of
        Inl e \<Rightarrow> Inl e
      | Inr tokenIface \<Rightarrow>
     (case parseUnits lib amountStr 18 of
        Inl e \<Rightarrow> Inl e
      | Inr amount \<Rightarrow>
     (case encodeFunctionData tokenIface ''mintTo'' [JStr receiver, JNum amount] of
        Inl e \<Rightarrow> Inl e
      | Inr innerCall \<Rightarrow>
     (case resolve_identifier ''ethers'' of
        Inl e \<Rightarrow> Inl e
      | Inr _ \<Rightarrow>
          encodeFunctionData (account_iface lib) ''execute''
            [JStr tokenAddr, JNum 0, JStr innerCall])))))"

text \<open>
  \<^verbatim>\<open>GET /api/aa/gasless-mint/send\<close> (lines 447-521).  \<open>user\<close>, \<open>to\<close> and
  \<open>amount\<close> are the query parameters; \<open>load_tokenAbi\<close> is the outcome of
  loading the token artifact.
\<close>

definition gasless_mint_send ::
  "network \<Rightarrow> request list \<Rightarrow> ethers_lib \<Rightarrow> provider \<Rightarrow> (js_error + factory_contract)
     \<Rightarrow> (js_error + json) \<Rightarrow> env \<Rightarrow> string option \<Rightarrow> string option \<Rightarrow> string option
     \<Rightarrow> response \<times> request list" where
  "gasless_mint_send net log lib prov load_factory load_tokenAbi ev user to amount =
     (let user' = query_String user;
          receiver = query_String to;
          amountStr = (if query_String amount = [] then ''10'' else query_String amount)
      in
      if user' = [] then (respond 400 (JObj [(''error'', JStr ''missing ?user='')]), log)
      else if take 2 receiver \<noteq> ''0x''
      then (respond 400 (JObj [(''error'', JStr ''bad ?to='')]), log)
      else if \<not> (env_truthy (AA_FACTORY ev) \<and> env_truthy (REWARD_TOKEN ev) \<and>
                  env_truthy (PAYMASTER ev) \<and> env_truthy (BUNDLER_URL ev) \<and>
                  env_truthy (ENTRYPOINT ev))
      then (respond 400 (JObj [(''error'', JStr ''missing env vars'')]), log)
      else
        let factoryAddr = the (AA_FACTORY ev);
            tokenAddr = the (REWARD_TOKEN ev);
            paymasterAddr = the (PAYMASTER ev);
            bundlerUrl = the (BUNDLER_URL ev);
            entryPoint = the (ENTRYPOINT ev)
        in
        (case getSenderAndInit lib prov load_factory factoryAddr user' of
           Inl e \<Rightarrow> (fail_500 e, log)
         | Inr r \<Rightarrow>
        (case load_tokenAbi of
           Inl e \<Rightarrow> (fail_500 e, log)
         | Inr tokenAbi \<Rightarrow>
        (case encode_mint_call lib tokenAbi tokenAddr receiver amountStr of
           Inl e \<Rightarrow> (fail_500 e, log)
         | Inr callData \<Rightarrow>
             submit_userOp net log bundlerUrl entryPoint
               (build_userOp r callData paymasterAddr factoryAddr)
               (sender r) receiver amountStr))))"

section \<open>The contracts\<close>

text \<open>
  \<^verbatim>\<open>AccountFactory.sol\<close> and \<^verbatim>\<open>MinimalAccount.sol\<close>.  Addresses, hashes and
  byte strings are the hex strings that the JSON-RPC interface shows.  The hash
  function and OpenZeppelin's \<^verbatim>\<open>Clones\<close> library are not part of the
  repository; they are parameters: \<open>keccak256\<close> of the packed \<open>userId\<close>,
  \<open>predictDeterministicAddress implementation salt deployer\<close>, the code of the
  clone that \<^verbatim>\<open>cloneDeterministic\<close> puts at that predicted address, and the
  hash given to the \<open>n\<close>-th transaction.
\<close>

record evm_lib =
  keccak256 :: "string \<Rightarrow> string"
  predictDeterministicAddress :: "string \<Rightarrow> string \<Rightarrow> string \<Rightarrow> string"
  clone_code :: "string \<Rightarrow> string"
  tx_hash :: "nat \<Rightarrow> string"

text \<open>The factory: its immutable \<^verbatim>\<open>implementation\<close> and \<^verbatim>\<open>address(this)\<close>.\<close>

record factory =
  implementation :: string
  this :: string

text \<open>
  The chain state the contracts touch: the code at each address (\<^verbatim>\<open>0x\<close> where
  there is none), the storage of each account (\<^verbatim>\<open>owner\<close>,
  \<^verbatim>\<open>_initialized\<close>) and the \<^verbatim>\<open>AccountDeployed\<close> events.
\<close>

record chain =
  code_at :: "string \<Rightarrow> string"
  owner_of :: "string \<Rightarrow> string"
  initialized :: "string \<Rightarrow> bool"
  events :: "(string \<times> string \<times> string) list"

definition zero_address :: string where
  "zero_address = ''0x0000000000000000000000000000000000000000''"

text \<open>\<^verbatim>\<open>AccountFactory.getAddress(string userId)\<close> (lines 22-25), a \<^verbatim>\<open>view\<close>.\<close>

definition AccountFactory_getAddress :: "evm_lib \<Rightarrow> factory \<Rightarrow> chain \<Rightarrow> string \<Rightarrow> string" where
  "AccountFactory_getAddress E f c userId =
     (let salt = keccak256 E userId in
      predictDeterministicAddress E (implementation f) salt (this f))"

text \<open>\<^verbatim>\<open>MinimalAccount.initialize(address _owner)\<close>; \<open>None\<close> is a revert.\<close>

definition MinimalAccount_initialize :: "chain \<Rightarrow> string \<Rightarrow> string \<Rightarrow> chain option" where
  "MinimalAccount_initialize c account owner' =
     (if initialized c account then None
      else if owner' = zero_address then None
      else Some (c\<lparr>owner_of := (owner_of c)(account := owner'),
                   initialized := (initialized c)(account := True)\<rparr>))"

text \<open>
  \<^verbatim>\<open>AccountFactory.createAccount(string userId, address owner)\<close> (lines 28-37);
  \<open>None\<close> is a revert, which leaves the chain as it was.
\<close>

definition AccountFactory_createAccount ::
  "evm_lib \<Rightarrow> factory \<Rightarrow> chain \<Rightarrow> string \<Rightarrow> string \<Rightarrow> (string \<times> chain) option" where
  "AccountFactory_createAccount E f c userId owner' =
     (let salt = keccak256 E userId;
          account = predictDeterministicAddress E (implementation f) salt (this f)
      in
      if code_at c account = ''0x''
      then
        (let c1 = c\<lparr>code_at := (code_at c)(account := clone_code E (implementation f))\<rparr> in
         case MinimalAccount_initialize c1 account owner' of
           None \<Rightarrow> None
         | Some c2 \<Rightarrow> Some (account, c2\<lparr>events := events c2 @ [(account, salt, owner')]\<rparr>))
      else Some (account, c))"

section \<open>The relayer's view of the chain\<close>

text \<open>
  What the backend sees through its provider and its relayer wallet: the chain,
  the \<^verbatim>\<open>createAccount\<close> transactions the relayer has sent (factory address,
  user id, owner), the block height, and whether the node can be reached.
\<close>

record world =
  chain_state :: chain
  sent :: "(string \<times> string \<times> string) list"
  block_number :: nat
  offline :: bool

text \<open>\<^verbatim>\<open>provider.getCode(addr)\<close>\<close>

definition node_getCode :: "world \<Rightarrow> string \<Rightarrow> js_error + string" where
  "node_getCode w addr =
     (if offline w then Inl (Error ''could not detect network'')
      else Inr (code_at (chain_state w) addr))"

text \<open>The read \<^verbatim>\<open>factory['getAddress(string)'](userId)\<close> on the contract at \<open>to\<close>.\<close>

definition node_getAddress ::
  "evm_lib \<Rightarrow> factory \<Rightarrow> world \<Rightarrow> string \<Rightarrow> string \<Rightarrow> js_error + string" where
  "node_getAddress E f w to userId =
     (if offline w then Inl (Error ''could not detect network'')
      else if to \<noteq> this f then Inl (Error ''could not decode result data'')
      else Inr (AccountFactory_getAddress E f (chain_state w) userId))"

text \<open>
  The transaction \<^verbatim>\<open>factory.createAccount(userId, owner)\<close> followed by
  \<^verbatim>\<open>tx.wait()\<close>: the hash, the block of the receipt and the world after it.
\<close>

definition node_createAccount ::
  "evm_lib \<Rightarrow> factory \<Rightarrow> world \<Rightarrow> string \<Rightarrow> string \<Rightarrow> string
     \<Rightarrow> js_error + (string \<times> nat \<times> world)" where
  "node_createAccount E f w to userId owner' =
     (if offline w then Inl (Error ''could not detect network'')
      else if to \<noteq> this f then Inl (Error ''execution reverted'')
      else
        (case AccountFactory_createAccount E f (chain_state w) userId owner' of
           None \<Rightarrow> Inl (Error ''execution reverted'')
         | Some (account, c') \<Rightarrow>
             Inr (tx_hash E (length (sent w)), Suc (block_number w),
                  w\<lparr>chain_state := c',
                    sent := sent w @ [(to, userId, owner')],
                    block_number := Suc (block_number w)\<rparr>)))"

text \<open>The value of \<^verbatim>\<open>code && code !== '0x'\<close> as it is put into a reply.\<close>

definition deployed_value :: "string \<Rightarrow> json" where
  "deployed_value code = (if code = [] then JStr [] else JBool (code \<noteq> ''0x''))"

text \<open>\<^verbatim>\<open>a || b || ''\<close> for two optional strings.\<close>

definition first_truthy :: "string option \<Rightarrow> string option \<Rightarrow> string" where
  "first_truthy a b = (if env_truthy a then the a else if env_truthy b then the b else [])"

section \<open>POST /api/aa/deploy and GET /api/aa/create\<close>

text \<open>
  \<^verbatim>\<open>POST /api/aa/deploy\<close> (lines 275-311).  \<open>q_user\<close>, \<open>q_owner\<close> come from
  the query, \<open>b_user\<close>, \<open>b_owner\<close> from the body; \<open>relayerAddr\<close> is
  \<^verbatim>\<open>relayer.getAddress()\<close>; \<open>load_artifact\<close> is the outcome of reading the
  factory artifact.
\<close>

definition aa_deploy ::
  "evm_lib \<Rightarrow> factory \<Rightarrow> string \<Rightarrow> (js_error + unit) \<Rightarrow> string option
     \<Rightarrow> string option \<Rightarrow> string option \<Rightarrow> string option \<Rightarrow> string option
     \<Rightarrow> world \<Rightarrow> response \<times> world" where
  "aa_deploy E f relayerAddr load_artifact aa_factory q_user b_user q_owner b_owner w =
     (let userId = first_truthy q_user b_user in
      if userId = [] then (respond 400 (JObj [(''error'', JStr ''missing ?user=<string>'')]), w)
      else
        let owner' = (if first_truthy q_owner b_owner \<noteq> [] then first_truthy q_owner b_owner
                      else relayerAddr)
        in
        if \<not> env_truthy aa_factory
        then (respond 400 (JObj [(''error'', JStr ''AA_FACTORY not set'')]), w)
        else
          let factoryAddr = the aa_factory in
          (case load_artifact of
             Inl e \<Rightarrow> (fail_500 e, w)
           | Inr _ \<Rightarrow>
          (case node_getAddress E f w factoryAddr userId of
             Inl e \<Rightarrow> (fail_500 e, w)
           | Inr predicted \<Rightarrow>
          (case node_createAccount E f w factoryAddr userId owner' of
             Inl e \<Rightarrow> (fail_500 e, w)
           | Inr (hash, blk, w') \<Rightarrow>
          (case node_getCode w' predicted of
             Inl e \<Rightarrow> (fail_500 e, w')
           | Inr code \<Rightarrow>
               (respond 200
                  (JObj [(''userId'', JStr userId), (''factory'', JStr factoryAddr),
                         (''predicted'', JStr predicted), (''owner'', JStr owner'),
                         (''txHash'', JStr hash), (''deployed'', deployed_value code),
                         (''receiptBlock'', JStr (show_nat blk))]), w'))))))"

text \<open>\<^verbatim>\<open>GET /api/aa/create\<close> (lines 344-373).\<close>

definition aa_create ::
  "evm_lib \<Rightarrow> factory \<Rightarrow> string \<Rightarrow> (js_error + unit) \<Rightarrow> string option
     \<Rightarrow> string option \<Rightarrow> world \<Rightarrow> response \<times> world" where
  "aa_create E f relayerAddr load_artifact aa_factory q_user w =
     (let user = query_String q_user in
      if user = [] then (respond 400 (JObj [(''error'', JStr ''missing ?user='')]), w)
      else if \<not> env_truthy aa_factory
      then (respond 400 (JObj [(''error'', JStr ''AA_FACTORY not set'')]), w)
      else
        let FACTORY = the aa_factory in
        (case load_artifact of
           Inl e \<Rightarrow> (fail_500 e, w)
         | Inr _ \<Rightarrow>
        (case node_getAddress E f w FACTORY user of
           Inl e \<Rightarrow> (fail_500 e, w)
         | Inr sender' \<Rightarrow>
        (case node_getCode w sender' of
           Inl e \<Rightarrow> (fail_500 e, w)
         | Inr code \<Rightarrow>
             if has_code code
             then (respond 200
                     (JObj [(''ok'', JBool True), (''user'', JStr user),
                            (''smartAccount'', JStr sender'),
                            (''alreadyDeployed'', JBool True)]), w)
             else
               (case node_createAccount E f w FACTORY user relayerAddr of
                  Inl e \<Rightarrow> (fail_500 e, w)
                | Inr (hash, blk, w') \<Rightarrow>
               (case node_getCode w' sender' of
                  Inl e \<Rightarrow> (fail_500 e, w')
                | Inr codeAfter \<Rightarrow>
                    (respond 200
                       (JObj [(''ok'', JBool True), (''user'', JStr user),
                              (''smartAccount'', JStr sender'),
                              (''deployed'', deployed_value codeAfter),
                              (''txHash'', JStr hash)]), w')))))))"

text \<open>
  The provider that \<^verbatim>\<open>getSenderAndInit\<close> uses when the chain behind it is a
  world: the factory has no function keyed by bytes32 and no fallback, so the raw
  call of line 433 reverts; the network has no name service.
\<close>

definition provider_of :: "world \<Rightarrow> provider" where
  "provider_of w =
     \<lparr>getCode = node_getCode w,
      call = (\<lambda>to data. Inl (Error ''execution reverted'')),
      resolveName = (\<lambda>name. Inl (Error ''network does not support ENS''))\<rparr>"

section \<open>Example worlds\<close>

text \<open>
  A node set in which the endpoints \<^verbatim>\<open>a\<close> and \<^verbatim>\<open>b\<close> are down and \<^verbatim>\<open>c\<close>
  answers every call with \<^verbatim>\<open>{"result": "0x2a"}\<close>.
\<close>

definition only_c_up :: network where
  "only_c_up log req =
     (if fst req = ''c'' then Response 200 (Some (JObj [(''result'', JStr ''0x2a'')]))
      else if fst req = ''b'' then Response 503 None
      else Rejected (TypeError ''fetch failed''))"

text \<open>
  Two stand-ins for an ethers \<^verbatim>\<open>Interface\<close>.  The first follows the ABI of
  \<^verbatim>\<open>AccountFactory.sol\<close> (\<^verbatim>\<open>getAddress(string)\<close>,
  \<^verbatim>\<open>createAccount(string,address)\<close>, \<^verbatim>\<open>implementation()\<close>) and rejects a
  call with the wrong number of arguments; the second encodes whatever it is
  given.  The encodings are symbolic.
\<close>

definition symbolic_call :: "string \<Rightarrow> json list \<Rightarrow> string" where
  "symbolic_call name args = ''0x'' @ name @ ''('' @ join_comma (map js_String args) @ '')''"

definition decode_one :: "string \<Rightarrow> json \<Rightarrow> js_error + json list" where
  "decode_one name out =
     (case out of JStr s \<Rightarrow> Inr [JStr s] | _ \<Rightarrow> Inl (Error ''could not decode result data''))"

definition factory_abi_iface :: iface where
  "factory_abi_iface =
     \<lparr>encodeFunctionData = (\<lambda>name args.
        if (name = ''getAddress'' \<and> length args = 1) \<or>
           (name = ''createAccount'' \<and> length args = 2) \<or>
           (name = ''implementation'' \<and> length args = 0)
        then Inr (symbolic_call name args)
        else Inl (Error ''types/values length mismatch'')),
      decodeFunctionResult = decode_one,
      getFunction = (\<lambda>name. name \<in> set [''getAddress'', ''getAddress(string)'', ''createAccount'',
                                          ''createAccount(string,address)'', ''implementation'',
                                          ''implementation()''])\<rparr>"

definition unchecked_iface :: iface where
  "unchecked_iface =
     \<lparr>encodeFunctionData = (\<lambda>name args. Inr (symbolic_call name args)),
      decodeFunctionResult = decode_one,
      getFunction = (\<lambda>name. True)\<rparr>"

text \<open>Symbolic chain primitives, a factory at \<^verbatim>\<open>0xFAC\<close> and a chain on which no account exists yet.\<close>

definition example_evm :: evm_lib where
  "example_evm =
     \<lparr>keccak256 = (\<lambda>s. ''keccak('' @ s @ '')''),
      predictDeterministicAddress = (\<lambda>impl salt deployer. ''clone('' @ impl @ '','' @ salt @ '','' @ deployer @ '')''),
      clone_code = (\<lambda>impl. ''0x363d3d373d3d3d363d73'' @ impl),
      tx_hash = (\<lambda>n. ''0xtx'' @ show_nat n)\<rparr>"

definition example_factory :: factory where
  "example_factory = \<lparr>implementation = ''0x1111'', this = ''0xFAC''\<rparr>"

definition alice_account :: string where
  "alice_account = ''clone(0x1111,keccak(alice),0xFAC)''"

definition fresh_world :: world where
  "fresh_world =
     \<lparr>chain_state =
        \<lparr>code_at = (\<lambda>a. if a = ''0xFAC'' \<or> a = ''0x1111'' then ''0x6080'' else ''0x''),
         owner_of = (\<lambda>a. zero_address),
         initialized = (\<lambda>a. False),
         events = []\<rparr>,
      sent = [], block_number = 0, offline = False\<rparr>"

text \<open>The world after one \<^verbatim>\<open>POST /api/aa/deploy?user=alice\<close>.\<close>

definition alice_deployed :: world where
  "alice_deployed =
     snd (aa_deploy example_evm example_factory ''0x4e1a'' (Inr ()) (Some ''0xFAC'')
            (Some ''alice'') None None None fresh_world)"

text \<open>The configuration, a library stand-in and a bundler that rejects every operation.\<close>

definition example_env :: env where
  "example_env =
     \<lparr>AA_FACTORY = Some ''0xFAC'', REWARD_TOKEN = Some ''0x70ce'', PAYMASTER = Some ''0x9a9a'',
      BUNDLER_URL = Some ''https://bundler'', ENTRYPOINT = Some ''0xe9e9''\<rparr>"

definition example_lib :: ethers_lib where
  "example_lib =
     \<lparr>ethers_id = (\<lambda>s. ''keccak('' @ s @ '')''),
      bytes32_iface = unchecked_iface,
      token_iface = (\<lambda>abi. Inr unchecked_iface),
      account_iface = unchecked_iface,
      parseUnits = (\<lambda>s d. if s = ''10'' then Inr (10 * 10 ^ d)
                           else Inl (Error ''invalid FixedNumber string value''))\<rparr>"

definition bundler_rejects :: network where
  "bundler_rejects log req =
     Response 200 (Some (JObj [(''jsonrpc'', JStr ''2.0''), (''id'', JNum 1),
                               (''error'', JObj [(''code'', JNum (- 32500)),
                                                 (''message'', JStr ''insufficient paymaster balance'')])]))"

text \<open>A bundler that accepts every operation.\<close>

definition bundler_accepts :: network where
  "bundler_accepts log req =
     Response 200 (Some (JObj [(''jsonrpc'', JStr ''2.0''), (''id'', JNum 1),
                               (''result'', JStr ''0x0123abcd'')]))"

text \<open>Read endpoints on which every \<^verbatim>\<open>eth_call\<close> reverts.\<close>

definition node_reverts :: network where
  "node_reverts log req =
     Response 200 (Some (JObj [(''jsonrpc'', JStr ''2.0''), (''id'', JNum 1),
                               (''error'', JObj [(''code'', JNum 3),
                                                 (''message'', JStr ''execution reverted'')])]))"

section \<open>The JSON-RPC client\<close>

lemma rpc_result_defined:
  "get_prop (parsed_body p) ''result'' = Some v \<Longrightarrow> rpc_result sc p = Inr v"
  by (cases "parsed_body p") (simp_all add: rpc_result_def)

lemma opt_chain_error_message:
  "opt_chain (opt_chain (Some j) ''error'') ''message'' =
     (case j of
        JObj kvs \<Rightarrow>
          (case map_of (rev kvs) ''error'' of
             Some (JObj evs) \<Rightarrow> map_of (rev evs) ''message''
           | _ \<Rightarrow> None)
      | _ \<Rightarrow> None)"
proof (cases j)
  case (JObj kvs)
  show ?thesis
  proof (cases "map_of (rev kvs) ''error''")
    case None
    with JObj show ?thesis by simp
  next
    case (Some e)
    with JObj show ?thesis by (cases e) simp_all
  qed
qed simp_all

lemma rpc_result_undefined:
  assumes "get_prop (parsed_body p) ''result'' = None"
  shows "rpc_result sc p =
           Inl (Error (case server_message (parsed_body p) of
                         Some m \<Rightarrow> m | None \<Rightarrow> ''rpc error '' @ show_nat sc))"
  using assms
  by (simp add: rpc_result_def Let_def opt_chain_error_message server_message_def
           split: json.splits option.splits)

lemma rpc_result_unparsed:
  "rpc_result sc None = Inl (Error (''rpc error '' @ show_nat sc))"
  by (simp add: rpc_result_def parsed_body_def)

text \<open>
  C6.  When the endpoint answers, the JSON-RPC client returns the \<^verbatim>\<open>result\<close>
  member of the parsed body whenever that member is defined; when it is not, the
  client throws an error whose message is the server-supplied message or, failing
  one, \<^verbatim>\<open>rpc error\<close> followed by the HTTP status; a body that does not parse
  counts as the empty object and so gives the error with the status.
\<close>

theorem rpcFetch_result_or_rpc_error:
  assumes "net log (url, method, params) = Response sc parsed"
  shows "(\<forall>v. get_prop (parsed_body parsed) ''result'' = Some v \<longrightarrow>
              fst (rpcFetch net log url method params) = Inr v)
       \<and> (get_prop (parsed_body parsed) ''result'' = None \<longrightarrow>
              fst (rpcFetch net log url method params) =
                Inl (Error (case server_message (parsed_body parsed) of
                              Some m \<Rightarrow> m | None \<Rightarrow> ''rpc error '' @ show_nat sc)))
       \<and> (parsed = None \<longrightarrow>
              parsed_body parsed = JObj [] \<and>
              fst (rpcFetch net log url method params) =
                Inl (Error (''rpc error '' @ show_nat sc)))"
proof -
  have f: "fst (rpcFetch net log url method params) = rpc_result sc parsed"
    using assms by (simp add: rpcFetch_def)
  show ?thesis
    unfolding f
    by (auto simp: rpc_result_defined rpc_result_undefined rpc_result_unparsed parsed_body_def)
qed

section \<open>The multi-endpoint reader\<close>

lemma snd_rpcFetch: "snd (rpcFetch net log url method params) = log @ [(url, method, params)]"
  by (simp add: rpcFetch_def split: fetch_result.split)

lemma rpcFetch_eq:
  "rpcFetch net log url method params =
     (fst (rpcFetch net log url method params), log @ [(url, method, params)])"
  by (simp add: rpcFetch_def split: fetch_result.split)

lemma rpc_loop_Cons:
  "rpc_loop net method params (u # us) lastErr log =
     (case fst (rpcFetch net log u method params) of
        Inr r \<Rightarrow> (Inr r, log @ [(u, method, params)])
      | Inl e \<Rightarrow> rpc_loop net method params us (Some e) (log @ [(u, method, params)]))"
  by (simp add: rpcFetch_def split: fetch_result.split sum.split)

lemma attempts_Cons:
  "log @ attempts method params (u # us) = (log @ [(u, method, params)]) @ attempts method params us"
  by (simp add: attempts_def)

lemma rpc_loop_all_fail:
  assumes "\<forall>i<length urls. isl (fst (rpcFetch net (log @ attempts method params (take i urls))
                                        (urls ! i) method params))"
  shows "rpc_loop net method params urls lastErr log =
           (if urls = []
            then (case lastErr of Some e \<Rightarrow> Inl e | None \<Rightarrow> Inl (Error ''all RPCs failed''))
            else fst (rpcFetch net (log @ attempts method params (butlast urls))
                        (last urls) method params),
            log @ attempts method params urls)"
  using assms
proof (induction urls arbitrary: log lastErr)
  case Nil
  show ?case by (simp add: attempts_def split: option.split)
next
  case (Cons u us)
  from Cons.prems have "isl (fst (rpcFetch net (log @ attempts method params (take 0 (u # us)))
                                        ((u # us) ! 0) method params))"
    by blast
  then obtain e where e: "fst (rpcFetch net log u method params) = Inl e"
    by (auto simp: attempts_def isl_def)
  have step: "rpc_loop net method params (u # us) lastErr log =
        rpc_loop net method params us (Some e) (log @ [(u, method, params)])"
    using e by (simp only: rpc_loop_Cons sum.case)
  have tl: "\<forall>i<length us. isl (fst (rpcFetch net ((log @ [(u, method, params)]) @
                 attempts method params (take i us)) (us ! i) method params))"
  proof (intro allI impI)
    fix i assume "i < length us"
    then have "Suc i < length (u # us)" by simp
    with Cons.prems have "isl (fst (rpcFetch net (log @ attempts method params (take (Suc i) (u # us)))
                                        ((u # us) ! Suc i) method params))"
      by blast
    then show "isl (fst (rpcFetch net ((log @ [(u, method, params)]) @
                 attempts method params (take i us)) (us ! i) method params))"
      by (simp add: attempts_def)
  qed
  show ?case
    unfolding step Cons.IH [OF tl]
    using e by (simp add: attempts_def)
qed

lemma rpc_loop_first_success:
  assumes "k < length urls"
    and "\<forall>i<k. isl (fst (rpcFetch net (log @ attempts method params (take i urls))
                                        (urls ! i) method params))"
    and "fst (rpcFetch net (log @ attempts method params (take k urls)) (urls ! k) method params) = Inr r"
  shows "rpc_loop net method params urls lastErr log =
           (Inr r, log @ attempts method params (take (Suc k) urls))"
  using assms
proof (induction urls arbitrary: log lastErr k)
  case Nil
  then show ?case by simp
next
  case (Cons u us)
  show ?case
  proof (cases k)
    case 0
    with Cons.prems(3) have "fst (rpcFetch net log u method params) = Inr r"
      by (simp add: attempts_def)
    then show ?thesis
      using 0 by (simp only: rpc_loop_Cons sum.case) (simp add: attempts_def)
  next
    case (Suc k')
    from Cons.prems(2) Suc
    have "isl (fst (rpcFetch net (log @ attempts method params (take 0 (u # us)))
                                        ((u # us) ! 0) method params))"
      by blast
    then obtain e where e: "fst (rpcFetch net log u method params) = Inl e"
      by (auto simp: attempts_def isl_def)
    have step: "rpc_loop net method params (u # us) lastErr log =
        rpc_loop net method params us (Some e) (log @ [(u, method, params)])"
      using e by (simp only: rpc_loop_Cons sum.case)
    have k': "k' < length us" using Cons.prems(1) Suc by simp
    have tl: "\<forall>i<k'. isl (fst (rpcFetch net ((log @ [(u, method, params)]) @
                 attempts method params (take i us)) (us ! i) method params))"
    proof (intro allI impI)
      fix i assume "i < k'"
      then have "Suc i < k" using Suc by simp
      with Cons.prems(2) have "isl (fst (rpcFetch net (log @ attempts method params (take (Suc i) (u # us)))
                                        ((u # us) ! Suc i) method params))"
        by blast
      then show "isl (fst (rpcFetch net ((log @ [(u, method, params)]) @
                 attempts method params (take i us)) (us ! i) method params))"
        by (simp add: attempts_def)
    qed
    have ok: "fst (rpcFetch net ((log @ [(u, method, params)]) @ attempts method params (take k' us))
                (us ! k') method params) = Inr r"
      using Cons.prems(3) Suc by (simp add: attempts_def)
    show ?thesis
      unfolding step Cons.IH [OF k' tl ok]
      using Suc by (simp add: attempts_def)
  qed
qed

text \<open>
  C2.  The multi-endpoint reader tries the endpoints in the configured order.  If the
  endpoint at position \<open>k\<close> is the first whose call succeeds, the reader returns
  that endpoint's result after exactly \<open>k + 1\<close> requests, those to the endpoints up
  to and including it, and none to a later endpoint; so when only the last of \<open>N\<close>
  endpoints succeeds it makes exactly \<open>N\<close> requests.  If every endpoint of a non-empty
  list fails, the reader has tried each once, in order, and throws the error of the
  last one.
\<close>

theorem rpc_first_success_or_last_error:
  "(k < length urls \<and>
    (\<forall>i<k. isl (fst (rpcFetch net (log @ attempts method params (take i urls))
                       (urls ! i) method params))) \<and>
    fst (rpcFetch net (log @ attempts method params (take k urls)) (urls ! k) method params) = Inr r
    \<longrightarrow> rpc net urls log method params = (Inr r, log @ attempts method params (take (Suc k) urls))
        \<and> length (snd (rpc net urls log method params)) = length log + Suc k)
   \<and>
   (urls \<noteq> [] \<and>
    (\<forall>i<length urls. isl (fst (rpcFetch net (log @ attempts method params (take i urls))
                       (urls ! i) method params)))
    \<longrightarrow> rpc net urls log method params =
          (fst (rpcFetch net (log @ attempts method params (butlast urls)) (last urls) method params),
           log @ attempts method params urls))"
proof (intro conjI impI)
  assume a: "k < length urls \<and>
    (\<forall>i<k. isl (fst (rpcFetch net (log @ attempts method params (take i urls))
                       (urls ! i) method params))) \<and>
    fst (rpcFetch net (log @ attempts method params (take k urls)) (urls ! k) method params) = Inr r"
  then show eq: "rpc net urls log method params =
      (Inr r, log @ attempts method params (take (Suc k) urls))"
    unfolding rpc_def by (intro rpc_loop_first_success) simp_all
  from a show "length (snd (rpc net urls log method params)) = length log + Suc k"
    unfolding eq by (simp add: attempts_def)
next
  assume "urls \<noteq> [] \<and>
    (\<forall>i<length urls. isl (fst (rpcFetch net (log @ attempts method params (take i urls))
                       (urls ! i) method params)))"
  then show "rpc net urls log method params =
          (fst (rpcFetch net (log @ attempts method params (butlast urls)) (last urls) method params),
           log @ attempts method params urls)"
    unfolding rpc_def by (simp add: rpc_loop_all_fail)
qed

lemma show_nat_503: "show_nat 503 = ''503''"
  by code_simp

lemma only_c_up_a: "fst (rpcFetch only_c_up l ''a'' m p) = Inl (TypeError ''fetch failed'')"
  by (simp add: rpcFetch_def only_c_up_def)

lemma only_c_up_b: "fst (rpcFetch only_c_up l ''b'' m p) = Inl (Error ''rpc error 503'')"
  by (simp add: rpcFetch_def only_c_up_def rpc_result_unparsed show_nat_503)

lemma only_c_up_c: "fst (rpcFetch only_c_up l ''c'' m p) = Inr (JStr ''0x2a'')"
  by (simp add: rpcFetch_def only_c_up_def rpc_result_def parsed_body_def)

lemma less_2_cases: "i < 2 \<Longrightarrow> i = 0 \<or> i = Suc 0"
  by arith

theorem rpc_first_success_or_last_error_witness:
  "rpc only_c_up [''a'', ''b'', ''c''] [] ''eth_call'' [] =
     (Inr (JStr ''0x2a''), [(''a'', ''eth_call'', []), (''b'', ''eth_call'', []), (''c'', ''eth_call'', [])])
   \<and> length (snd (rpc only_c_up [''a'', ''b'', ''c''] [] ''eth_call'' [])) = 3
   \<and> rpc only_c_up [''a'', ''b''] [] ''eth_call'' [] =
     (Inl (Error ''rpc error 503''), [(''a'', ''eth_call'', []), (''b'', ''eth_call'', [])])"
proof -
  have fails2: "\<forall>i<2. isl (fst (rpcFetch only_c_up ([] @ attempts ''eth_call'' [] (take i [''a'', ''b'', ''c'']))
                       ([''a'', ''b'', ''c''] ! i) ''eth_call'' []))"
    by (auto dest!: less_2_cases simp: only_c_up_a only_c_up_b)
  have ok: "fst (rpcFetch only_c_up ([] @ attempts ''eth_call'' [] (take 2 [''a'', ''b'', ''c'']))
                       ([''a'', ''b'', ''c''] ! 2) ''eth_call'' []) = Inr (JStr ''0x2a'')"
    by (simp add: only_c_up_c)
  have allfail: "\<forall>i<length [''a'', ''b'']. isl (fst (rpcFetch only_c_up ([] @ attempts ''eth_call'' [] (take i [''a'', ''b'']))
                       ([''a'', ''b''] ! i) ''eth_call'' []))"
    by (auto simp: less_Suc_eq only_c_up_a only_c_up_b)
  have first: "rpc only_c_up [''a'', ''b'', ''c''] [] ''eth_call'' [] =
      (Inr (JStr ''0x2a''), [] @ attempts ''eth_call'' [] (take (Suc 2) [''a'', ''b'', ''c'']))
      \<and> length (snd (rpc only_c_up [''a'', ''b'', ''c''] [] ''eth_call'' [])) = length ([]::request list) + Suc 2"
    using rpc_first_success_or_last_error
            [of 2 "[''a'', ''b'', ''c'']" only_c_up "[]" "''eth_call''" "[]" "JStr ''0x2a''"]
          fails2 ok
    by (simp add: attempts_def)
  have last: "rpc only_c_up [''a'', ''b''] [] ''eth_call'' [] =
          (fst (rpcFetch only_c_up ([] @ attempts ''eth_call'' [] (butlast [''a'', ''b''])) (last [''a'', ''b'']) ''eth_call'' []),
           [] @ attempts ''eth_call'' [] [''a'', ''b''])"
    using rpc_first_success_or_last_error
            [of 0 "[''a'', ''b'']" only_c_up "[]" "''eth_call''" "[]" "JNull"]
          allfail
    by simp
  from first have f1: "rpc only_c_up [''a'', ''b'', ''c''] [] ''eth_call'' [] =
     (Inr (JStr ''0x2a''), [(''a'', ''eth_call'', []), (''b'', ''eth_call'', []), (''c'', ''eth_call'', [])])"
    by (simp add: attempts_def)
  from first have f2: "length (snd (rpc only_c_up [''a'', ''b'', ''c''] [] ''eth_call'' [])) = 3"
    by (simp add: attempts_def)
  from last have f3: "rpc only_c_up [''a'', ''b''] [] ''eth_call'' [] =
     (Inl (Error ''rpc error 503''), [(''a'', ''eth_call'', []), (''b'', ''eth_call'', [])])"
    by (simp add: attempts_def only_c_up_b)
  from f1 f2 f3 show ?thesis by blast
qed

text \<open>
  C10.  With neither \<^verbatim>\<open>READ_RPC_1\<close> nor \<^verbatim>\<open>READ_RPC_2\<close> set (or both set to
  the empty string) the endpoint list is empty, and the reader then makes no
  request and throws \<^verbatim>\<open>Error("all RPCs failed")\<close>, whatever the method and the
  parameters.
\<close>

theorem rpc_no_endpoints:
  "READS None None = [] \<and> READS (Some []) (Some []) = []
   \<and> rpc net (READS None None) log method params = (Inl (Error ''all RPCs failed''), log)
   \<and> rpc net [] log method params = (Inl (Error ''all RPCs failed''), log)"
  by (simp add: READS_def env_truthy_def rpc_def)

theorem rpcFetch_result_or_rpc_error_witness:
  "fst (rpcFetch (\<lambda>log req. Response 200 (Some (JObj [(''jsonrpc'', JStr ''2.0''), (''result'', JStr ''0x''), (''id'', JNum 1)])))
          [] ''http://node'' ''eth_getCode'' [JStr ''0xabc'', JStr ''latest'']) = Inr (JStr ''0x'')
   \<and> fst (rpcFetch (\<lambda>log req. Response 200 (Some (JObj [(''error'', JObj [(''code'', JNum 3), (''message'', JStr ''execution reverted'')])])))
          [] ''http://node'' ''eth_call'' []) = Inl (Error ''execution reverted'')
   \<and> fst (rpcFetch (\<lambda>log req. Response 503 None) [] ''http://node'' ''eth_call'' []) = Inl (Error ''rpc error 503'')"
proof -
  let ?ok = "Some (JObj [(''jsonrpc'', JStr ''2.0''), (''result'', JStr ''0x''), (''id'', JNum 1)])"
  let ?err = "Some (JObj [(''error'', JObj [(''code'', JNum 3), (''message'', JStr ''execution reverted'')])])"
  have a: "fst (rpcFetch (\<lambda>log req. Response 200 ?ok)
          [] ''http://node'' ''eth_getCode'' [JStr ''0xabc'', JStr ''latest'']) = Inr (JStr ''0x'')"
    using rpcFetch_result_or_rpc_error
      [of "\<lambda>log req. Response 200 ?ok" "[]" "''http://node''" "''eth_getCode''"
          "[JStr ''0xabc'', JStr ''latest'']" 200 ?ok]
    by (simp add: parsed_body_def)
  have b: "fst (rpcFetch (\<lambda>log req. Response 200 ?err) [] ''http://node'' ''eth_call'' []) =
             Inl (Error ''execution reverted'')"
    using rpcFetch_result_or_rpc_error
      [of "\<lambda>log req. Response 200 ?err" "[]" "''http://node''" "''eth_call''" "[]" 200 ?err]
    by (simp add: parsed_body_def server_message_def)
  have c: "fst (rpcFetch (\<lambda>log req. Response 503 None) [] ''http://node'' ''eth_call'' []) =
             Inl (Error ''rpc error 503'')"
    using rpcFetch_result_or_rpc_error
      [of "\<lambda>log req. Response 503 None" "[]" "''http://node''" "''eth_call''" "[]" 503 None]
    by (simp add: show_nat_503)
  from a b c show ?thesis by blast
qed

section \<open>Identifiers the module never binds\<close>

lemma resolve_ethers: "resolve_identifier ''ethers'' = Inl (ReferenceError ''ethers'')"
  by (simp add: resolve_identifier_def module_bindings_def runtime_globals_def)

lemma resolve_keccak256: "resolve_identifier ''keccak256'' = Inl (ReferenceError ''keccak256'')"
  by (simp add: resolve_identifier_def module_bindings_def runtime_globals_def)

lemma resolve_toUtf8Bytes: "resolve_identifier ''toUtf8Bytes'' = Inl (ReferenceError ''toUtf8Bytes'')"
  by (simp add: resolve_identifier_def module_bindings_def runtime_globals_def)

lemma resolve_Interface: "resolve_identifier ''Interface'' = Inr ()"
  by (simp add: resolve_identifier_def module_bindings_def runtime_globals_def)

lemma address_step2_throws:
  "\<not> js_truthy smartAccount \<Longrightarrow>
   address_step2 net reads log keccak_utf8 altIf factoryAddr userId smartAccount =
     (Inl (ReferenceError ''keccak256''), log)"
  by (simp add: address_step2_def resolve_keccak256)


lemma encode_mint_call_throws:
  "encode_mint_call lib tokenAbi tokenAddr receiver amountStr = Inl (ReferenceError ''ethers'')"
  by (simp add: encode_mint_call_def resolve_ethers)


lemma gasless_mint_send_outcomes:
  "\<exists>e. gasless_mint_send net log lib prov load_factory load_tokenAbi ev user to amount \<in>
     {(respond 400 (JObj [(''error'', JStr ''missing ?user='')]), log),
      (respond 400 (JObj [(''error'', JStr ''bad ?to='')]), log),
      (respond 400 (JObj [(''error'', JStr ''missing env vars'')]), log),
      (fail_500 e, log)}"
  by (auto simp: gasless_mint_send_def Let_def encode_mint_call_throws split: sum.split)

section \<open>Account resolution\<close>

lemma aa_address_fallback_throws:
  assumes "query_String user \<noteq> []" and "env_truthy aa_factory"
    and "address_step1 net reads log facIf (the aa_factory) (query_String user) = (Inr sa, log1)"
    and "\<not> js_truthy sa"
  shows "aa_address net reads log keccak_utf8 altIf (Inr facIf) aa_factory user =
           (fail_500 (ReferenceError ''keccak256''), log1)"
  using assms by (simp add: aa_address_def Let_def address_step2_throws)

text \<open>
  C4.  The claim: when the read keyed by the string fails, the resolver hashes the
  user id into a salt, performs the read keyed by bytes32 and decodes its answer,
  and when both reads fail it reports an error naming the factory and the two
  variants.  What \<^verbatim>\<open>GET /api/aa/address\<close> does when both configured endpoints
  answer the first read with \<^verbatim>\<open>execution reverted\<close>: the fallback begins with
  \<^verbatim>\<open>keccak256(toUtf8Bytes(userId))\<close>, neither name is bound in the module, and the
  reply is status 500 with \<^verbatim>\<open>ReferenceError: keccak256 is not defined\<close>.  The only
  requests made are the two attempts of the first read; the reply does not carry
  the factory address.
\<close>

theorem aa_address_alternate_never_called:
  "aa_address node_reverts [''https://rpc-1'', ''https://rpc-2''] []
      (\<lambda>s. ''keccak('' @ s @ '')'') unchecked_iface (Inr factory_abi_iface)
      (Some ''0xFAC'') (Some ''alice'') =
     (respond 500 (JObj [(''error'', JStr ''ReferenceError: keccak256 is not defined'')]),
      [(''https://rpc-1'', ''eth_call'',
          [JObj [(''to'', JStr ''0xFAC''), (''data'', JStr ''0xgetAddress(alice)'')], JStr ''latest'']),
       (''https://rpc-2'', ''eth_call'',
          [JObj [(''to'', JStr ''0xFAC''), (''data'', JStr ''0xgetAddress(alice)'')], JStr ''latest''])])"
  by code_simp







section \<open>The gasless mint\<close>

text \<open>
  What lines 476-517 compute once they are given a resolved sender, call data and a
  bundler response.
\<close>

lemma get_prop_userOp_literal_factory:
  "map_of (rev (userOp_literal s cd pm)) ''factory'' = None"
  "map_of (rev (userOp_literal s cd pm)) ''factoryData'' = None"
  by (simp_all add: userOp_literal_def)

lemma build_userOp_undeployed:
  "\<not> deployed r \<Longrightarrow>
   get_prop (build_userOp r cd pm fa) ''factory'' = Some (JStr fa) \<and>
   get_prop (build_userOp r cd pm fa) ''factoryData'' = Some (JStr (factoryData r))"
  by (simp add: build_userOp_def)

lemma build_userOp_deployed:
  "deployed r \<Longrightarrow>
   get_prop (build_userOp r cd pm fa) ''factory'' = None \<and>
   get_prop (build_userOp r cd pm fa) ''factoryData'' = None"
  by (simp add: build_userOp_def get_prop_userOp_literal_factory)

lemma build_userOp_placeholders:
  "get_prop (build_userOp r cd pm fa) ''nonce'' = Some (JStr ''0x0'')"
  "get_prop (build_userOp r cd pm fa) ''signature'' = Some (JStr ''0x'')"
  "get_prop (build_userOp r cd pm fa) ''callGasLimit'' = Some (JStr ''0x5208'')"
  "get_prop (build_userOp r cd pm fa) ''verificationGasLimit'' = Some (JStr ''0x989680'')"
  "get_prop (build_userOp r cd pm fa) ''preVerificationGas'' = Some (JStr ''0x186a0'')"
  "get_prop (build_userOp r cd pm fa) ''maxFeePerGas'' = Some (JStr ''0x3b9aca00'')"
  "get_prop (build_userOp r cd pm fa) ''maxPriorityFeePerGas'' = Some (JStr ''0x3b9aca00'')"
  by (simp_all add: build_userOp_def userOp_literal_def)

lemma submit_userOp_rejected:
  assumes "net log (url, ''eth_sendUserOperation'', [op, JStr ep]) = Response sc (Some j)"
    and "get_prop j ''error'' = Some err" and "js_truthy err"
  shows "submit_userOp net log url ep op s rcv amt =
           (respond 400 (JObj [(''error'', JStr ''Bundler rejected''), (''details'', err),
                               (''sentUserOp'', op)]),
            log @ [(url, ''eth_sendUserOperation'', [op, JStr ep])])"
  using assms by (cases j) (simp_all add: submit_userOp_def)

lemma submit_userOp_accepted:
  assumes "net log (url, ''eth_sendUserOperation'', [op, JStr ep]) = Response sc (Some j)"
    and "get_prop j ''error'' = None" and "get_prop j ''result'' = Some h"
  shows "submit_userOp net log url ep op s rcv amt =
           (respond 200 (JObj [(''ok'', JBool True), (''userOpHash'', h), (''sender'', JStr s),
                               (''receiver'', JStr rcv), (''amount'', JStr amt)]),
            log @ [(url, ''eth_sendUserOperation'', [op, JStr ep])])"
  using assms by (cases j) (simp_all add: submit_userOp_def)

text \<open>
  Lines 476-517 are never reached: once the request and the configuration pass the
  checks, the resolver returns and the token artifact loads, the handler throws at
  line 469.
\<close>

lemma gasless_mint_send_reference_error:
  assumes "query_String user \<noteq> []" and "take 2 (query_String to) = ''0x''"
    and "env_truthy (AA_FACTORY ev)" and "env_truthy (REWARD_TOKEN ev)"
    and "env_truthy (PAYMASTER ev)" and "env_truthy (BUNDLER_URL ev)"
    and "env_truthy (ENTRYPOINT ev)"
    and "getSenderAndInit lib prov load_factory (the (AA_FACTORY ev)) (query_String user) = Inr r"
    and "load_tokenAbi = Inr tokenAbi"
  shows "gasless_mint_send net log lib prov load_factory load_tokenAbi ev user to amount =
           (fail_500 (ReferenceError ''ethers''), log)"
  using assms by (simp add: gasless_mint_send_def Let_def encode_mint_call_throws)

text \<open>
  C1.  The claim: an operation assembled for a sender that is not deployed carries
  \<^verbatim>\<open>factory\<close> and a non-empty \<^verbatim>\<open>factoryData\<close>, one for a deployed sender
  carries neither.  What the code does for \<^verbatim>\<open>alice\<close> on a chain where the
  factory is deployed and the account that the factory predicts for her has no
  code: the resolver takes the factory's own address for the sender and, that
  address having code, reports \<^verbatim>\<open>deployed = true\<close> with \<^verbatim>\<open>factoryData\<close>
  \<^verbatim>\<open>0x\<close>; the handler then throws at \<^verbatim>\<open>new ethers.Interface(tokenAbi)\<close>,
  because \<^verbatim>\<open>ethers\<close> is not bound, and replies status 500.  No operation is
  assembled and nothing is posted.
\<close>

theorem gasless_mint_send_undeployed_sender:
  "AccountFactory_getAddress example_evm example_factory (chain_state fresh_world) ''alice'' =
     alice_account
   \<and> code_at (chain_state fresh_world) alice_account = ''0x''
   \<and> getSenderAndInit example_lib (provider_of fresh_world)
        (Inr (factory_contract_of (provider_of fresh_world) factory_abi_iface ''0xFAC''))
        ''0xFAC'' ''alice'' =
       Inr \<lparr>sender = ''0xFAC'', deployed = True, factoryData = ''0x'', usedBytes32 = False\<rparr>
   \<and> gasless_mint_send bundler_accepts [] example_lib (provider_of fresh_world)
        (Inr (factory_contract_of (provider_of fresh_world) factory_abi_iface ''0xFAC''))
        (Inr (JArr [])) example_env (Some ''alice'') (Some ''0xb0b'') (Some ''10'') =
       (respond 500 (JObj [(''error'', JStr ''ReferenceError: ethers is not defined'')]), [])"
  by code_simp

text \<open>
  C5.  The claim: when the bundler answers a submitted operation with an error
  object the client receives status 400 with that error and the operation.  What
  the handler does for a deployed sender when the bundler would answer every
  submission with \<^verbatim>\<open>insufficient paymaster balance\<close>: it replies 500 with the
  \<^verbatim>\<open>ReferenceError\<close>, and the list of requests stays empty: the bundler is never
  asked.
\<close>

theorem gasless_mint_send_bundler_never_asked:
  "gasless_mint_send bundler_rejects [] example_lib (provider_of alice_deployed)
      (Inr (factory_contract_of (provider_of alice_deployed) factory_abi_iface ''0xFAC''))
      (Inr (JArr [])) example_env (Some ''alice'') (Some ''0xb0b'') (Some ''10'') =
     (respond 500 (JObj [(''error'', JStr ''ReferenceError: ethers is not defined'')]), [])"
  by code_simp

text \<open>
  C7.  The claim: for an undeployed sender and amount 10 the handler produces call
  data that decodes to the token address, value 0, the recipient and
  \<open>10 * 10^18\<close>.  What the code does: the encoding of lines 467-474 stops at its
  first step, the lookup of \<^verbatim>\<open>ethers\<close>, so no call data is produced; with the
  default amount (\<^verbatim>\<open>10\<close>) the handler replies 500.
\<close>

theorem gasless_mint_callData_not_produced:
  "encode_mint_call example_lib (JArr []) ''0x70ce'' ''0xb0b'' ''10'' = Inl (ReferenceError ''ethers'')
   \<and> status (fst (gasless_mint_send bundler_accepts [] example_lib (provider_of fresh_world)
      (Inr (factory_contract_of (provider_of fresh_world) factory_abi_iface ''0xFAC''))
      (Inr (JArr [])) example_env (Some ''alice'') (Some ''0xb0b'') None)) = 500"
  by code_simp

text \<open>
  C8.  The claim: every operation the builder constructs has the fixed gas and
  fee fields, nonce \<^verbatim>\<open>0x0\<close> and an empty signature.  What the code does, for every
  request, configuration, chain, library and bundler: the handler replies 400 or
  500 and makes no request, so it never constructs, nor submits, an operation.
\<close>

theorem gasless_mint_send_builds_nothing:
  "snd (gasless_mint_send net log lib prov load_factory load_tokenAbi ev user to amount) = log
   \<and> (status (fst (gasless_mint_send net log lib prov load_factory load_tokenAbi ev user to amount)) = 400
      \<or> status (fst (gasless_mint_send net log lib prov load_factory load_tokenAbi ev user to amount)) = 500)"
  using gasless_mint_send_outcomes [of net log lib prov load_factory load_tokenAbi ev user to amount]
  by (auto simp: respond_def fail_500_def)

section \<open>Deployment\<close>

lemma aa_deploy_always_sends:
  assumes "status (fst (aa_deploy E f relayerAddr la af qu bu qo bo w)) = 200"
  shows "length (sent (snd (aa_deploy E f relayerAddr la af qu bu qo bo w))) = Suc (length (sent w))"
  using assms
  by (auto simp: aa_deploy_def Let_def respond_def fail_500_def node_createAccount_def
           split: sum.splits if_splits option.splits prod.splits)

lemma aa_create_already_deployed:
  assumes "has_code (code_at (chain_state w)
             (AccountFactory_getAddress E f (chain_state w) (query_String qu)))"
  shows "snd (aa_create E f relayerAddr la af qu w) = w"
  using assms
  by (auto simp: aa_create_def Let_def node_getAddress_def node_getCode_def
           split: sum.splits if_splits)

text \<open>
  C3.  The claim: deploying an account that is already deployed submits no
  transaction and returns no \<^verbatim>\<open>txHash\<close>.  What \<^verbatim>\<open>POST /api/aa/deploy\<close> does
  when called for \<^verbatim>\<open>alice\<close> a second time, her account having code after the
  first call: it sends \<^verbatim>\<open>createAccount\<close> again and returns the hash of that
  second transaction (on chain the call changes nothing).
  \<^verbatim>\<open>GET /api/aa/create\<close> in the same world sends nothing and answers
  \<^verbatim>\<open>alreadyDeployed\<close>.
\<close>

theorem aa_deploy_sends_again:
  "has_code (code_at (chain_state alice_deployed) alice_account)
   \<and> sent alice_deployed = [(''0xFAC'', ''alice'', ''0x4e1a'')]
   \<and> fst (aa_deploy example_evm example_factory ''0x4e1a'' (Inr ()) (Some ''0xFAC'')
            (Some ''alice'') None None None alice_deployed) =
       respond 200
         (JObj [(''userId'', JStr ''alice''), (''factory'', JStr ''0xFAC''),
                (''predicted'', JStr alice_account), (''owner'', JStr ''0x4e1a''),
                (''txHash'', JStr ''0xtx1''), (''deployed'', JBool True),
                (''receiptBlock'', JStr ''2'')])
   \<and> sent (snd (aa_deploy example_evm example_factory ''0x4e1a'' (Inr ()) (Some ''0xFAC'')
            (Some ''alice'') None None None alice_deployed)) =
       [(''0xFAC'', ''alice'', ''0x4e1a''), (''0xFAC'', ''alice'', ''0x4e1a'')]
   \<and> fst (aa_create example_evm example_factory ''0x4e1a'' (Inr ()) (Some ''0xFAC'')
            (Some ''alice'') alice_deployed) =
       respond 200
         (JObj [(''ok'', JBool True), (''user'', JStr ''alice''),
                (''smartAccount'', JStr alice_account), (''alreadyDeployed'', JBool True)])
   \<and> sent (snd (aa_create example_evm example_factory ''0x4e1a'' (Inr ()) (Some ''0xFAC'')
            (Some ''alice'') alice_deployed)) = [(''0xFAC'', ''alice'', ''0x4e1a'')]"
  by code_simp

end
